theory Spec2Isabelle
  imports Main "HOL-Library.Word"
begin

section \<open>The vSphere metrics collector of \<open>main.go\<close>\<close>

text \<open>
  The program is one sequential pass: read three environment variables, open a
  session, list the virtual machines through a container view, fetch the counter
  catalog, and query one counter per machine. Everything it does beyond computing is
  a call of the govmomi client library or a line on standard output.

  The embedding makes both explicit. The answers of the outside (the environment
  variables, the URL parser, the management endpoint) are the fields of a record
  \<open>world\<close>; each function of the source takes the world and returns the list of
  effects it performed, in order, together with its outcome: \<open>Return x\<close>, or
  \<open>Exit n\<close> where the source calls \<open>os.Exit(n)\<close>.
\<close>

subsection \<open>Data of the govmomi library, as the source uses it\<close>

type_synonym int32 = "32 word"
type_synonym int64 = "64 word"

text \<open>A Go \<open>error\<close> value, by its message.\<close>

datatype error = Error string

text \<open>\<open>types.ManagedObjectReference\<close>\<close>

record ManagedObjectReference =
  Type :: string
  Value :: string

text \<open>
  \<open>mo.VirtualMachine\<close>, restricted to what \<open>Retrieve\<close> is asked for (the property
  \<open>name\<close>) and what the source reads: \<open>vm.Reference()\<close> returns the field \<open>Self\<close>.
\<close>

record VirtualMachine =
  Self :: ManagedObjectReference
  Name :: string

definition Reference :: "VirtualMachine \<Rightarrow> ManagedObjectReference" where
  "Reference vm = Self vm"

text \<open>\<open>types.PerfCounterInfo\<close>: the source reads the field \<open>Key\<close> only.\<close>

record PerfCounterInfo =
  Key :: int32

text \<open>\<open>types.PerfMetricId\<close> and \<open>types.PerfQuerySpec\<close>, with every field of the library.\<close>

record PerfMetricId =
  CounterId :: int32
  Instance :: string

record PerfQuerySpec =
  Entity :: ManagedObjectReference
  StartTime :: "string option"
  EndTime :: "string option"
  MaxSample :: int32
  MetricId :: "PerfMetricId list"
  IntervalId :: int32
  Format :: string

text \<open>
  The interface \<open>types.BasePerfMetricSeries\<close> has three implementations in the
  library: \<open>PerfMetricSeries\<close> (the metric id alone), \<open>PerfMetricIntSeries\<close> (the id
  and a slice of \<open>int64\<close>) and \<open>PerfMetricSeriesCSV\<close> (the id and one string). Every
  one of them carries a metric id. The interface \<open>types.BasePerfEntityMetricBase\<close>
  likewise: \<open>PerfEntityMetricBase\<close>, \<open>PerfEntityMetric\<close> (a slice of series of any
  kind) and \<open>PerfEntityMetricCSV\<close> (a slice of CSV series). The values are the ones
  the library decodes from a response, so no interface holds a nil pointer.
\<close>

datatype BasePerfMetricSeries =
    PerfMetricSeries PerfMetricId
  | PerfMetricIntSeries PerfMetricId "int64 list"
  | PerfMetricSeriesCSV PerfMetricId string

datatype BasePerfEntityMetricBase =
    PerfEntityMetricBase ManagedObjectReference
  | PerfEntityMetric ManagedObjectReference "BasePerfMetricSeries list"
  | PerfEntityMetricCSV ManagedObjectReference "(PerfMetricId \<times> string) list"

text \<open>\<open>url.URL\<close>: the parsed text and the user information the source sets.\<close>

record URL =
  Raw :: string
  User :: "(string \<times> string) option"

text \<open>\<open>govmomi.Client\<close>: the source reads \<open>ServiceContent.RootFolder\<close>.\<close>

record Client =
  RootFolder :: ManagedObjectReference

text \<open>\<open>view.ContainerView\<close>: a reference to the view object on the server.\<close>

record ContainerView =
  ViewRef :: ManagedObjectReference

subsection \<open>The outside world, effects and outcomes\<close>

text \<open>
  What the outside answers. \<open>Getenv\<close> is \<open>os.Getenv\<close> (the empty string for an unset
  variable). \<open>Query\<close> takes, before the specification, the number of queries this run
  has issued before: the endpoint may answer the same question differently later.
\<close>

record world =
  Getenv :: "string \<Rightarrow> string"
  url_Parse :: "string \<Rightarrow> error + URL"
  NewClient :: "URL \<Rightarrow> bool \<Rightarrow> error + Client"
  CreateContainerView ::
    "ManagedObjectReference \<Rightarrow> string list \<Rightarrow> bool \<Rightarrow> error + ContainerView"
  Retrieve :: "ContainerView \<Rightarrow> string list \<Rightarrow> string list \<Rightarrow> error + VirtualMachine list"
  CounterInfoByName :: "error + (string \<rightharpoonup> PerfCounterInfo)"
  Query :: "nat \<Rightarrow> PerfQuerySpec list \<Rightarrow> error + BasePerfEntityMetricBase list"

text \<open>An argument of a \<open>fmt.Printf\<close> call.\<close>

datatype arg = AStr string | AErr error | AInts "int64 list"

text \<open>
  The effects: a line printed (the format string of the source and its arguments, or
  the text of a \<open>Println\<close>), and each call that reaches the endpoint, with its
  arguments.
\<close>

datatype event =
    Println string
  | Printf string "arg list"
  | Call_NewClient URL bool
  | Call_CreateContainerView ManagedObjectReference "string list" bool
  | Call_Retrieve ContainerView "string list" "string list"
  | Call_Destroy ContainerView
  | Call_CounterInfoByName
  | Call_Query "PerfQuerySpec list"
  | Call_cancel

datatype 'a outcome = Exit nat | Return 'a

type_synonym 'a run = "event list \<times> 'a outcome"

text \<open>
  Sequencing: the second step runs only when the first returned. \<open>os.Exit\<close> ends the
  process at once, so nothing after it is performed; Go does not run deferred calls
  on \<open>os.Exit\<close>.
\<close>

definition seq :: "'a run \<Rightarrow> ('a \<Rightarrow> 'b run) \<Rightarrow> 'b run" where
  "seq m f =
     (case m of
        (es, Exit n) \<Rightarrow> (es, Exit n)
      | (es, Return x) \<Rightarrow> (case f x of (es', r) \<Rightarrow> (es @ es', r)))"

subsection \<open>The functions of the source\<close>

definition readEnvVars :: "world \<Rightarrow> (string \<times> string \<times> string) run" where
  "readEnvVars w =
     (let vc = Getenv w ''VCSA_SERVER'';
          user = Getenv w ''QA_VCENTER_USERNAME'';
          pass = Getenv w ''QA_VCENTER_PASSWORD''
      in if vc = '''' \<or> user = '''' \<or> pass = ''''
         then ([Println ''Environment variables VCSA_SERVER, QA_VCENTER_USERNAME, and QA_VCENTER_PASSWORD must be set''],
               Exit 1)
         else ([], Return (vc, user, pass)))"

definition formatVCURL :: "string \<Rightarrow> string" where
  "formatVCURL vc = ''https://'' @ vc @ ''/sdk''"

definition createVSphereClient :: "world \<Rightarrow> string \<Rightarrow> string \<Rightarrow> string \<Rightarrow> Client run" where
  "createVSphereClient w vcURL user pass =
     (case url_Parse w vcURL of
        Inl err \<Rightarrow> ([Printf ''Error parsing URL: %v\<newline>'' [AErr err]], Exit 1)
      | Inr u0 \<Rightarrow>
          (let u = u0\<lparr>User := Some (user, pass)\<rparr>
           in case NewClient w u True of
                Inl err \<Rightarrow>
                  ([Call_NewClient u True,
                    Printf ''Error creating vSphere client: %v\<newline>'' [AErr err]], Exit 1)
              | Inr c \<Rightarrow> ([Call_NewClient u True], Return c)))"

text \<open>
  \<open>defer v.Destroy(ctx)\<close> is registered once the view exists and runs when
  \<open>retrieveVMs\<close> returns. On the failure of \<open>Retrieve\<close> the function does not return:
  it calls \<open>os.Exit(1)\<close>, which runs no deferred call.
\<close>

definition retrieveVMs :: "world \<Rightarrow> Client \<Rightarrow> VirtualMachine list run" where
  "retrieveVMs w client =
     (case CreateContainerView w (RootFolder client) [''VirtualMachine''] True of
        Inl err \<Rightarrow>
          ([Call_CreateContainerView (RootFolder client) [''VirtualMachine''] True,
            Printf ''Error creating container view: %v\<newline>'' [AErr err]], Exit 1)
      | Inr v \<Rightarrow>
          (case Retrieve w v [''VirtualMachine''] [''name''] of
             Inl err \<Rightarrow>
               ([Call_CreateContainerView (RootFolder client) [''VirtualMachine''] True,
                 Call_Retrieve v [''VirtualMachine''] [''name''],
                 Printf ''Error retrieving virtual machines: %v\<newline>'' [AErr err]], Exit 1)
           | Inr vms \<Rightarrow>
               ([Call_CreateContainerView (RootFolder client) [''VirtualMachine''] True,
                 Call_Retrieve v [''VirtualMachine''] [''name''],
                 Call_Destroy v], Return vms)))"

definition metricName :: string where
  "metricName = ''cpu.usagemhz.average''"

text \<open>The body of the innermost loop (lines 130 to 140), for one value series.\<close>

fun seriesStep :: "VirtualMachine \<Rightarrow> PerfCounterInfo \<Rightarrow> BasePerfMetricSeries \<Rightarrow> event list" where
  "seriesStep vm counter (PerfMetricIntSeries mid vals) =
     (if CounterId mid = Key counter
      then [Printf ''VM: %s, CPU Usage (MHz): %v\<newline>'' [AStr (Name vm), AInts vals]]
      else [])"
| "seriesStep vm counter other =
     [Printf ''Error asserting metric series type for VM %s\<newline>'' [AStr (Name vm)]]"

fun seriesLoop :: "VirtualMachine \<Rightarrow> PerfCounterInfo \<Rightarrow> BasePerfMetricSeries list \<Rightarrow> event list" where
  "seriesLoop vm counter [] = []"
| "seriesLoop vm counter (s # ss) = seriesStep vm counter s @ seriesLoop vm counter ss"

text \<open>The body of the middle loop (lines 123 to 141), for one response envelope.\<close>

fun metricStep :: "VirtualMachine \<Rightarrow> PerfCounterInfo \<Rightarrow> BasePerfEntityMetricBase \<Rightarrow> event list" where
  "metricStep vm counter (PerfEntityMetric ent series) = seriesLoop vm counter series"
| "metricStep vm counter other =
     [Printf ''Error asserting metric type for VM %s\<newline>'' [AStr (Name vm)]]"

fun metricLoop :: "VirtualMachine \<Rightarrow> PerfCounterInfo \<Rightarrow> BasePerfEntityMetricBase list \<Rightarrow> event list" where
  "metricLoop vm counter [] = []"
| "metricLoop vm counter (m # ms) = metricStep vm counter m @ metricLoop vm counter ms"

text \<open>The query specification of lines 110 to 115; the fields not named are Go's zero values.\<close>

definition querySpec :: "VirtualMachine \<Rightarrow> PerfCounterInfo \<Rightarrow> PerfQuerySpec" where
  "querySpec vm counter =
     \<lparr>Entity = Reference vm, StartTime = None, EndTime = None, MaxSample = 1,
      MetricId = [\<lparr>CounterId = Key counter, Instance = ''''\<rparr>],
      IntervalId = 20, Format = ''''\<rparr>"

text \<open>The body of the outer loop (lines 109 to 142), for the \<open>i\<close>-th machine.\<close>

definition vmStep :: "world \<Rightarrow> PerfCounterInfo \<Rightarrow> nat \<Rightarrow> VirtualMachine \<Rightarrow> event list" where
  "vmStep w counter i vm =
     (case Query w i [querySpec vm counter] of
        Inl err \<Rightarrow>
          [Call_Query [querySpec vm counter],
           Printf ''Error querying performance metrics for VM %s: %v\<newline>'' [AStr (Name vm), AErr err]]
      | Inr metrics \<Rightarrow>
          Call_Query [querySpec vm counter] # metricLoop vm counter metrics)"

fun vmLoop :: "world \<Rightarrow> PerfCounterInfo \<Rightarrow> nat \<Rightarrow> VirtualMachine list \<Rightarrow> event list" where
  "vmLoop w counter i [] = []"
| "vmLoop w counter i (vm # vms) = vmStep w counter i vm @ vmLoop w counter (Suc i) vms"

definition retrieveAndDisplayMetrics :: "world \<Rightarrow> Client \<Rightarrow> VirtualMachine list \<Rightarrow> unit run" where
  "retrieveAndDisplayMetrics w client vms =
     (case CounterInfoByName w of
        Inl err \<Rightarrow>
          ([Call_CounterInfoByName,
            Printf ''Error retrieving counter info: %v\<newline>'' [AErr err]], Exit 1)
      | Inr counterInfo \<Rightarrow>
          (case counterInfo metricName of
             None \<Rightarrow>
               ([Call_CounterInfoByName,
                 Printf ''Metric %s not found\<newline>'' [AStr metricName]], Exit 1)
           | Some counter \<Rightarrow>
               (Call_CounterInfoByName # vmLoop w counter 0 vms, Return ())))"

text \<open>
  \<open>main\<close>: the four steps in sequence. The result is the effects of the run and the
  exit status of the process; \<open>defer cancel()\<close> runs when \<open>main\<close> returns, and the
  status is then 0.
\<close>

definition main :: "world \<Rightarrow> event list \<times> nat" where
  "main w =
     (case seq (readEnvVars w) (\<lambda>(vc, user, pass).
           seq (createVSphereClient w (formatVCURL vc) user pass) (\<lambda>client.
           seq (retrieveVMs w client) (\<lambda>vms.
           retrieveAndDisplayMetrics w client vms))) of
        (es, Exit n) \<Rightarrow> (es, n)
      | (es, Return u) \<Rightarrow> (es @ [Call_cancel], 0))"

subsection \<open>Observations on a run\<close>

text \<open>Which effects are calls of the catalog, of the query engine, of \<open>Destroy\<close>.\<close>

fun is_Call_CounterInfoByName :: "event \<Rightarrow> bool" where
  "is_Call_CounterInfoByName Call_CounterInfoByName = True"
| "is_Call_CounterInfoByName e = False"

fun is_Call_Query :: "event \<Rightarrow> bool" where
  "is_Call_Query (Call_Query specs) = True"
| "is_Call_Query e = False"

fun is_Call_Destroy :: "event \<Rightarrow> bool" where
  "is_Call_Destroy (Call_Destroy v) = True"
| "is_Call_Destroy e = False"

fun is_Call_CreateContainerView :: "event \<Rightarrow> bool" where
  "is_Call_CreateContainerView (Call_CreateContainerView r k b) = True"
| "is_Call_CreateContainerView e = False"

text \<open>A session opened with certificate validation enforced.\<close>

fun enforces_certificate :: "event \<Rightarrow> bool" where
  "enforces_certificate (Call_NewClient u insecure) = (\<not> insecure)"
| "enforces_certificate e = False"

text \<open>
  The result values a run surfaces: the lines that carry a value sequence, each with
  the machine name printed beside it. Only line 138 of the source prints such a line.
\<close>

fun valueLine :: "event \<Rightarrow> (string \<times> int64 list) list" where
  "valueLine (Printf f [AStr n, AInts vals]) = [(n, vals)]"
| "valueLine e = []"

definition valueLines :: "event list \<Rightarrow> (string \<times> int64 list) list" where
  "valueLines es = concat (map valueLine es)"

text \<open>The lines printed at all, value lines and diagnostics alike.\<close>

fun is_line :: "event \<Rightarrow> bool" where
  "is_line (Println s) = True"
| "is_line (Printf f args) = True"
| "is_line e = False"

text \<open>A printed line names the machine \<open>n\<close> when \<open>n\<close> is its first argument.\<close>

fun names_vm :: "string \<Rightarrow> event \<Rightarrow> bool" where
  "names_vm n (Printf f (AStr n' # args)) = (n' = n)"
| "names_vm n (Printf f args) = False"
| "names_vm n (Println s) = False"
| "names_vm n e = True"

text \<open>The kinds of a series and of an envelope, and the metric id every series carries.\<close>

fun isIntSeries :: "BasePerfMetricSeries \<Rightarrow> bool" where
  "isIntSeries (PerfMetricIntSeries mid vals) = True"
| "isIntSeries s = False"

fun isEntityMetric :: "BasePerfEntityMetricBase \<Rightarrow> bool" where
  "isEntityMetric (PerfEntityMetric ent series) = True"
| "isEntityMetric m = False"

fun seriesId :: "BasePerfMetricSeries \<Rightarrow> PerfMetricId" where
  "seriesId (PerfMetricSeries mid) = mid"
| "seriesId (PerfMetricIntSeries mid vals) = mid"
| "seriesId (PerfMetricSeriesCSV mid csv) = mid"

fun seriesValues :: "BasePerfMetricSeries \<Rightarrow> int64 list" where
  "seriesValues (PerfMetricIntSeries mid vals) = vals"
| "seriesValues s = []"

text \<open>Every value series a response contains, of any kind, in order.\<close>

fun seriesOf :: "BasePerfEntityMetricBase \<Rightarrow> BasePerfMetricSeries list" where
  "seriesOf (PerfEntityMetricBase ent) = []"
| "seriesOf (PerfEntityMetric ent series) = series"
| "seriesOf (PerfEntityMetricCSV ent csvs) = map (\<lambda>(mid, csv). PerfMetricSeriesCSV mid csv) csvs"

definition allSeries :: "BasePerfEntityMetricBase list \<Rightarrow> BasePerfMetricSeries list" where
  "allSeries metrics = concat (map seriesOf metrics)"

text \<open>The integer series of the envelopes of the entity-metric kind.\<close>

fun intSeriesOf :: "BasePerfEntityMetricBase \<Rightarrow> BasePerfMetricSeries list" where
  "intSeriesOf (PerfEntityMetric ent series) = filter isIntSeries series"
| "intSeriesOf m = []"

definition allIntSeries :: "BasePerfEntityMetricBase list \<Rightarrow> BasePerfMetricSeries list" where
  "allIntSeries metrics = concat (map intSeriesOf metrics)"

text \<open>A series matches when its counter id is the requested one.\<close>

definition matches :: "PerfCounterInfo \<Rightarrow> BasePerfMetricSeries \<Rightarrow> bool" where
  "matches counter s = (CounterId (seriesId s) = Key counter)"


subsection \<open>Concrete worlds\<close>

text \<open>
  The end-to-end scenario of the specification: two machines, the catalog maps the
  metric to the counter 6, the first query answers one integer series with the value
  350, the second fails in transport.
\<close>

definition web01 :: VirtualMachine where
  "web01 = \<lparr>Self = \<lparr>Type = ''VirtualMachine'', Value = ''vm-1''\<rparr>, Name = ''web-01''\<rparr>"

definition db01 :: VirtualMachine where
  "db01 = \<lparr>Self = \<lparr>Type = ''VirtualMachine'', Value = ''vm-2''\<rparr>, Name = ''db-01''\<rparr>"

definition counter6 :: PerfCounterInfo where
  "counter6 = \<lparr>Key = 6\<rparr>"

definition id6 :: PerfMetricId where
  "id6 = \<lparr>CounterId = 6, Instance = ''''\<rparr>"

definition id7 :: PerfMetricId where
  "id7 = \<lparr>CounterId = 7, Instance = ''''\<rparr>"

definition rootFolder :: ManagedObjectReference where
  "rootFolder = \<lparr>Type = ''Folder'', Value = ''group-d1''\<rparr>"

definition view1 :: ContainerView where
  "view1 = \<lparr>ViewRef = \<lparr>Type = ''ContainerView'', Value = ''session[1]view-1''\<rparr>\<rparr>"

definition scenario :: world where
  "scenario =
     \<lparr>Getenv = (\<lambda>k. if k = ''VCSA_SERVER'' then ''vc.example.org''
                     else if k = ''QA_VCENTER_USERNAME'' then ''admin''
                     else if k = ''QA_VCENTER_PASSWORD'' then ''secret'' else ''''),
      url_Parse = (\<lambda>s. Inr \<lparr>Raw = s, User = None\<rparr>),
      NewClient = (\<lambda>u insecure. Inr \<lparr>RootFolder = rootFolder\<rparr>),
      CreateContainerView = (\<lambda>root kinds recursive. Inr view1),
      Retrieve = (\<lambda>v kinds props. Inr [web01, db01]),
      CounterInfoByName = Inr [metricName \<mapsto> counter6],
      Query = (\<lambda>i specs.
        if i = 0 then Inr [PerfEntityMetric (Self web01) [PerfMetricIntSeries id6 [350]]]
        else Inl (Error ''transport error''))\<rparr>"

text \<open>The same endpoint, where \<open>Retrieve\<close> on the view fails.\<close>

definition scenario_retrieve_fails :: world where
  "scenario_retrieve_fails =
     scenario\<lparr>Retrieve := (\<lambda>v kinds props. Inl (Error ''connection reset''))\<rparr>"

text \<open>The same endpoint, with a catalog that lacks the metric.\<close>

definition scenario_unknown_metric :: world where
  "scenario_unknown_metric =
     scenario\<lparr>CounterInfoByName := Inr [''mem.usage.average'' \<mapsto> counter6]\<rparr>"

text \<open>
  Responses of mixed kinds: an integer series of the requested counter, one of another
  counter, a CSV series of the requested counter, and a CSV envelope.
\<close>

definition mixedResponse :: "BasePerfEntityMetricBase list" where
  "mixedResponse =
     [PerfEntityMetric (Self web01)
        [PerfMetricIntSeries id6 [350], PerfMetricIntSeries id7 [12],
         PerfMetricSeriesCSV id6 ''350'', PerfMetricIntSeries id6 [351]],
      PerfEntityMetricCSV (Self web01) [(id6, ''350'')]]"

definition csvResponse :: "BasePerfEntityMetricBase list" where
  "csvResponse = [PerfEntityMetric (Self web01) [PerfMetricSeriesCSV id6 ''350'']]"

definition csvOtherResponse :: "BasePerfEntityMetricBase list" where
  "csvOtherResponse = [PerfEntityMetric (Self web01) [PerfMetricSeriesCSV id7 ''12'']]"

definition intOtherResponse :: "BasePerfEntityMetricBase list" where
  "intOtherResponse = [PerfEntityMetric (Self web01) [PerfMetricIntSeries id7 [12]]]"

text \<open>An endpoint that answers every query with the mixed response.\<close>

definition scenario_mixed :: world where
  "scenario_mixed = scenario\<lparr>Query := (\<lambda>i specs. Inr mixedResponse)\<rparr>"

section \<open>Properties\<close>

subsection \<open>The loops, as concatenations of their bodies\<close>

lemma seriesLoop_concat: "seriesLoop vm counter ss = concat (map (seriesStep vm counter) ss)"
  by (induction ss) simp_all

lemma metricLoop_concat: "metricLoop vm counter ms = concat (map (metricStep vm counter) ms)"
  by (induction ms) simp_all

lemma seriesLoop_append:
  "seriesLoop vm counter (ss @ ts) = seriesLoop vm counter ss @ seriesLoop vm counter ts"
  by (simp add: seriesLoop_concat)

lemma metricLoop_append:
  "metricLoop vm counter (ms @ ns) = metricLoop vm counter ms @ metricLoop vm counter ns"
  by (simp add: metricLoop_concat)

lemma vmLoop_append:
  "vmLoop w counter i (xs @ ys) = vmLoop w counter i xs @ vmLoop w counter (i + length xs) ys"
  by (induction xs arbitrary: i) simp_all

lemma vmLoop_concat:
  "vmLoop w counter i vms =
     concat (map (\<lambda>(j, vm). vmStep w counter j vm) (zip [i ..< i + length vms] vms))"
proof (induction vms arbitrary: i)
  case Nil
  show ?case by simp
next
  case (Cons vm vms)
  have "[i ..< i + length (vm # vms)] = i # [Suc i ..< Suc i + length vms]"
    using upt_conv_Cons [of i "i + length (vm # vms)"] by simp
  then show ?case
    using Cons.IH [of "Suc i"] by simp
qed

subsection \<open>The effects of each step\<close>

lemma main_unfold:
  "main w =
     (case readEnvVars w of
        (e1, Exit n) \<Rightarrow> (e1, n)
      | (e1, Return (vc, user, pass)) \<Rightarrow>
          (case createVSphereClient w (formatVCURL vc) user pass of
             (e2, Exit n) \<Rightarrow> (e1 @ e2, n)
           | (e2, Return client) \<Rightarrow>
               (case retrieveVMs w client of
                  (e3, Exit n) \<Rightarrow> (e1 @ e2 @ e3, n)
                | (e3, Return vms) \<Rightarrow>
                    (case retrieveAndDisplayMetrics w client vms of
                       (e4, Exit n) \<Rightarrow> (e1 @ e2 @ e3 @ e4, n)
                     | (e4, Return u) \<Rightarrow> (e1 @ e2 @ e3 @ e4 @ [Call_cancel], 0)))))"
  by (simp add: main_def seq_def split: prod.splits outcome.splits)

lemma seriesStep_lines: "list_all is_line (seriesStep vm counter s)"
  by (cases s) simp_all

lemma seriesLoop_lines: "list_all is_line (seriesLoop vm counter ss)"
  by (induction ss) (simp_all add: seriesStep_lines)

lemma metricStep_lines: "list_all is_line (metricStep vm counter m)"
  by (cases m) (simp_all add: seriesLoop_lines)

lemma metricLoop_lines: "list_all is_line (metricLoop vm counter ms)"
  by (induction ms) (simp_all add: metricStep_lines)

lemma vmStep_events: "list_all (\<lambda>e. is_line e \<or> is_Call_Query e) (vmStep w counter i vm)"
proof (cases "Query w i [querySpec vm counter]")
  case (Inl err)
  then show ?thesis by (simp add: vmStep_def)
next
  case (Inr metrics)
  have "list_all (\<lambda>e. is_line e \<or> is_Call_Query e) (metricLoop vm counter metrics)"
    using metricLoop_lines [of vm counter metrics] by (simp add: list_all_iff)
  with Inr show ?thesis by (simp add: vmStep_def)
qed

lemma vmLoop_events: "list_all (\<lambda>e. is_line e \<or> is_Call_Query e) (vmLoop w counter i vms)"
  by (induction vms arbitrary: i) (simp_all add: vmStep_events)

lemma vmLoop_filter:
  assumes "\<And>e. P e \<Longrightarrow> \<not> is_line e \<and> \<not> is_Call_Query e"
  shows "filter P (vmLoop w counter i vms) = []"
  using vmLoop_events [of w counter i vms] assms
  by (auto simp: filter_empty_conv list_all_iff)

lemma readEnvVars_lines: "list_all is_line (fst (readEnvVars w))"
  by (simp add: readEnvVars_def Let_def)

lemma readEnvVars_Exit: "readEnvVars w = (es, Exit n) \<Longrightarrow> n = 1"
  by (simp add: readEnvVars_def Let_def split: if_splits)

lemma createVSphereClient_Exit: "createVSphereClient w vcURL user pass = (es, Exit n) \<Longrightarrow> n = 1"
  by (auto simp: createVSphereClient_def Let_def split: sum.splits)

lemma retrieveVMs_Exit: "retrieveVMs w client = (es, Exit n) \<Longrightarrow> n = 1"
  by (auto simp: retrieveVMs_def split: sum.splits)

lemma retrieveAndDisplayMetrics_Exit:
  "retrieveAndDisplayMetrics w client vms = (es, Exit n) \<Longrightarrow> n = 1"
  by (auto simp: retrieveAndDisplayMetrics_def split: sum.splits option.splits)

lemma createVSphereClient_insecure:
  "\<not> list_ex enforces_certificate (fst (createVSphereClient w vcURL user pass))"
  by (simp add: createVSphereClient_def Let_def split: sum.splits)

lemma retrieveVMs_no_connect: "\<not> list_ex enforces_certificate (fst (retrieveVMs w client))"
  by (simp add: retrieveVMs_def split: sum.splits)

lemma retrieveAndDisplayMetrics_no_connect:
  "\<not> list_ex enforces_certificate (fst (retrieveAndDisplayMetrics w client vms))"
proof -
  have "filter enforces_certificate (vmLoop w counter 0 vms) = []" for counter
    by (rule vmLoop_filter) (auto elim: enforces_certificate.elims)
  then have "\<not> list_ex enforces_certificate (vmLoop w counter 0 vms)" for counter
    by (simp add: filter_empty_conv list_ex_iff)
  then show ?thesis
    by (simp add: retrieveAndDisplayMetrics_def split: sum.splits option.splits)
qed

lemma main_events:
  assumes env: "list_all Q (fst (readEnvVars w))"
    and conn: "\<And>vc user pass. list_all Q (fst (createVSphereClient w (formatVCURL vc) user pass))"
    and inv: "\<And>client. list_all Q (fst (retrieveVMs w client))"
    and met: "\<And>client vms. list_all Q (fst (retrieveAndDisplayMetrics w client vms))"
    and cancel: "Q Call_cancel"
  shows "list_all Q (fst (main w))"
proof (cases "readEnvVars w")
  case r1: (Pair e1 o1)
  have q1: "list_all Q e1" using env r1 by simp
  show ?thesis
  proof (cases o1)
    case (Exit n)
    with r1 q1 show ?thesis by (simp add: main_unfold)
  next
    case o1: (Return t)
    obtain vc user pass where t: "t = (vc, user, pass)" by (cases t)
    show ?thesis
    proof (cases "createVSphereClient w (formatVCURL vc) user pass")
      case r2: (Pair e2 o2)
      have q2: "list_all Q e2" using conn [of vc user pass] r2 by simp
      show ?thesis
      proof (cases o2)
        case (Exit n)
        with r1 o1 t r2 q1 q2 show ?thesis by (simp add: main_unfold)
      next
        case o2: (Return client)
        show ?thesis
        proof (cases "retrieveVMs w client")
          case r3: (Pair e3 o3)
          have q3: "list_all Q e3" using inv [of client] r3 by simp
          show ?thesis
          proof (cases o3)
            case (Exit n)
            with r1 o1 t r2 o2 r3 q1 q2 q3 show ?thesis by (simp add: main_unfold)
          next
            case o3: (Return vms)
            show ?thesis
            proof (cases "retrieveAndDisplayMetrics w client vms")
              case r4: (Pair e4 o4)
              have q4: "list_all Q e4" using met [of client vms] r4 by simp
              show ?thesis
                using r1 o1 t r2 o2 r3 o3 r4 q1 q2 q3 q4 cancel
                by (cases o4) (simp_all add: main_unfold)
            qed
          qed
        qed
      qed
    qed
  qed
qed

lemma readEnvVars_Return: "readEnvVars w = (es, Return t) \<Longrightarrow> es = []"
  by (simp add: readEnvVars_def Let_def split: if_splits)

lemma main_cases [case_names env conn inv met ok]:
  obtains
    (env) e1 where "readEnvVars w = (e1, Exit 1)" and "main w = (e1, 1)"
  | (conn) vc user pass e2 where "readEnvVars w = ([], Return (vc, user, pass))"
      and "createVSphereClient w (formatVCURL vc) user pass = (e2, Exit 1)"
      and "main w = (e2, 1)"
  | (inv) vc user pass e2 client e3 where "readEnvVars w = ([], Return (vc, user, pass))"
      and "createVSphereClient w (formatVCURL vc) user pass = (e2, Return client)"
      and "retrieveVMs w client = (e3, Exit 1)"
      and "main w = (e2 @ e3, 1)"
  | (met) vc user pass e2 client e3 vms e4 where "readEnvVars w = ([], Return (vc, user, pass))"
      and "createVSphereClient w (formatVCURL vc) user pass = (e2, Return client)"
      and "retrieveVMs w client = (e3, Return vms)"
      and "retrieveAndDisplayMetrics w client vms = (e4, Exit 1)"
      and "main w = (e2 @ e3 @ e4, 1)"
  | (ok) vc user pass e2 client e3 vms e4 where "readEnvVars w = ([], Return (vc, user, pass))"
      and "createVSphereClient w (formatVCURL vc) user pass = (e2, Return client)"
      and "retrieveVMs w client = (e3, Return vms)"
      and "retrieveAndDisplayMetrics w client vms = (e4, Return ())"
      and "main w = (e2 @ e3 @ e4 @ [Call_cancel], 0)"
proof (cases "readEnvVars w")
  case r1: (Pair e1 o1)
  show ?thesis
  proof (cases o1)
    case (Exit n)
    with r1 have "readEnvVars w = (e1, Exit 1)" using readEnvVars_Exit by blast
    then show ?thesis using env by (simp add: main_unfold)
  next
    case o1: (Return t)
    obtain vc user pass where t: "t = (vc, user, pass)" by (cases t)
    have r1': "readEnvVars w = ([], Return (vc, user, pass))"
      using r1 o1 t readEnvVars_Return by blast
    show ?thesis
    proof (cases "createVSphereClient w (formatVCURL vc) user pass")
      case r2: (Pair e2 o2)
      show ?thesis
      proof (cases o2)
        case (Exit n)
        with r2 have "createVSphereClient w (formatVCURL vc) user pass = (e2, Exit 1)"
          using createVSphereClient_Exit by blast
        then show ?thesis using r1' conn by (simp add: main_unfold)
      next
        case o2: (Return client)
        show ?thesis
        proof (cases "retrieveVMs w client")
          case r3: (Pair e3 o3)
          show ?thesis
          proof (cases o3)
            case (Exit n)
            with r3 have "retrieveVMs w client = (e3, Exit 1)"
              using retrieveVMs_Exit by blast
            then show ?thesis using r1' r2 o2 inv by (simp add: main_unfold)
          next
            case o3: (Return vms)
            show ?thesis
            proof (cases "retrieveAndDisplayMetrics w client vms")
              case r4: (Pair e4 o4)
              show ?thesis
              proof (cases o4)
                case (Exit n)
                with r4 have "retrieveAndDisplayMetrics w client vms = (e4, Exit 1)"
                  using retrieveAndDisplayMetrics_Exit by blast
                then show ?thesis using r1' r2 o2 r3 o3 met by (simp add: main_unfold)
              next
                case (Return u)
                with r4 have "retrieveAndDisplayMetrics w client vms = (e4, Return ())" by simp
                then show ?thesis using r1' r2 o2 r3 o3 ok by (simp add: main_unfold)
              qed
            qed
          qed
        qed
      qed
    qed
  qed
qed

lemma main_never_enforces: "\<not> list_ex enforces_certificate (fst (main w))"
proof -
  have "list_all (\<lambda>e. \<not> enforces_certificate e) (fst (main w))"
  proof (rule main_events)
    show "list_all (\<lambda>e. \<not> enforces_certificate e) (fst (readEnvVars w))"
      by (simp add: readEnvVars_def Let_def)
    show "list_all (\<lambda>e. \<not> enforces_certificate e) (fst (createVSphereClient w (formatVCURL vc) user pass))"
      for vc user pass
      using createVSphereClient_insecure [of w "formatVCURL vc" user pass]
      by (simp add: list_all_iff list_ex_iff)
    show "list_all (\<lambda>e. \<not> enforces_certificate e) (fst (retrieveVMs w client))" for client
      using retrieveVMs_no_connect [of w client] by (simp add: list_all_iff list_ex_iff)
    show "list_all (\<lambda>e. \<not> enforces_certificate e) (fst (retrieveAndDisplayMetrics w client vms))"
      for client vms
      using retrieveAndDisplayMetrics_no_connect [of w client vms]
      by (simp add: list_all_iff list_ex_iff)
    show "\<not> enforces_certificate Call_cancel" by simp
  qed
  then show ?thesis by (simp add: list_all_iff list_ex_iff)
qed

subsection \<open>The end-to-end scenario, evaluated\<close>

lemma main_scenario:
  "main scenario =
    ([Call_NewClient \<lparr>Raw = ''https://vc.example.org/sdk'', User = Some (''admin'', ''secret'')\<rparr> True,
      Call_CreateContainerView rootFolder [''VirtualMachine''] True,
      Call_Retrieve view1 [''VirtualMachine''] [''name''],
      Call_Destroy view1,
      Call_CounterInfoByName,
      Call_Query [querySpec web01 counter6],
      Printf ''VM: %s, CPU Usage (MHz): %v\<newline>'' [AStr ''web-01'', AInts [350]],
      Call_Query [querySpec db01 counter6],
      Printf ''Error querying performance metrics for VM %s: %v\<newline>''
        [AStr ''db-01'', AErr (Error ''transport error'')],
      Call_cancel], 0)"
  by (simp add: main_def seq_def scenario_def readEnvVars_def formatVCURL_def
      createVSphereClient_def retrieveVMs_def retrieveAndDisplayMetrics_def vmStep_def
      metricName_def web01_def db01_def counter6_def id6_def Let_def)

subsection \<open>The session\<close>

text \<open>
  Claim C9. In every run the session is opened with certificate validation skipped:
  the only call of \<open>NewClient\<close> passes the literal \<open>true\<close> as its insecure flag, and
  \<open>createVSphereClient\<close> has no parameter that could change it. So whatever the world
  and whatever the arguments, a \<open>NewClient\<close> call among the effects of
  \<open>createVSphereClient\<close>, or of a whole run, has the flag set.
\<close>

theorem session_always_insecure:
  "(Call_NewClient u insecure \<in> set (fst (createVSphereClient w vcURL user pass)) \<longrightarrow> insecure) \<and>
   (Call_NewClient u insecure \<in> set (fst (main w)) \<longrightarrow> insecure)"
proof (intro conjI impI)
  assume "Call_NewClient u insecure \<in> set (fst (createVSphereClient w vcURL user pass))"
  then show insecure
    using createVSphereClient_insecure [of w vcURL user pass]
    by (auto simp: list_ex_iff)
next
  assume "Call_NewClient u insecure \<in> set (fst (main w))"
  then show insecure
    using main_never_enforces [of w] by (auto simp: list_ex_iff)
qed

theorem session_always_insecure_witness:
  "Call_NewClient \<lparr>Raw = ''https://vc.example.org/sdk'', User = Some (''admin'', ''secret'')\<rparr> True
     \<in> set (fst (main scenario))"
  using session_always_insecure
    [of "\<lparr>Raw = ''https://vc.example.org/sdk'', User = Some (''admin'', ''secret'')\<rparr>" True scenario]
  by (simp add: main_scenario)

lemma readEnvVars_no_engine:
  "list_all (\<lambda>e. \<not> is_Call_CounterInfoByName e \<and> \<not> is_Call_Query e \<and> \<not> is_Call_Destroy e)
     (fst (readEnvVars w))"
  by (simp add: readEnvVars_def Let_def)

lemma createVSphereClient_no_engine:
  "list_all (\<lambda>e. \<not> is_Call_CounterInfoByName e \<and> \<not> is_Call_Query e \<and> \<not> is_Call_Destroy e)
     (fst (createVSphereClient w vcURL user pass))"
  by (simp add: createVSphereClient_def Let_def split: sum.splits)

lemma retrieveVMs_no_engine:
  "list_all (\<lambda>e. \<not> is_Call_CounterInfoByName e \<and> \<not> is_Call_Query e)
     (fst (retrieveVMs w client))"
  by (simp add: retrieveVMs_def split: sum.splits)

lemma main_scenario_retrieve_fails:
  "main scenario_retrieve_fails =
    ([Call_NewClient \<lparr>Raw = ''https://vc.example.org/sdk'', User = Some (''admin'', ''secret'')\<rparr> True,
      Call_CreateContainerView rootFolder [''VirtualMachine''] True,
      Call_Retrieve view1 [''VirtualMachine''] [''name''],
      Printf ''Error retrieving virtual machines: %v\<newline>'' [AErr (Error ''connection reset'')]], 1)"
  by (simp add: main_def seq_def scenario_retrieve_fails_def scenario_def readEnvVars_def
      formatVCURL_def createVSphereClient_def retrieveVMs_def Let_def)

lemma main_scenario_unknown_metric:
  "main scenario_unknown_metric =
    ([Call_NewClient \<lparr>Raw = ''https://vc.example.org/sdk'', User = Some (''admin'', ''secret'')\<rparr> True,
      Call_CreateContainerView rootFolder [''VirtualMachine''] True,
      Call_Retrieve view1 [''VirtualMachine''] [''name''],
      Call_Destroy view1,
      Call_CounterInfoByName,
      Printf ''Metric %s not found\<newline>'' [AStr ''cpu.usagemhz.average'']], 1)"
  by (simp add: main_def seq_def scenario_unknown_metric_def scenario_def readEnvVars_def
      formatVCURL_def createVSphereClient_def retrieveVMs_def retrieveAndDisplayMetrics_def
      metricName_def Let_def)

subsection \<open>The inventory\<close>

text \<open>
  Claim C3. The container view is to be destroyed whether \<open>Retrieve\<close> succeeds or
  fails. The source registers \<open>defer v.Destroy(ctx)\<close>, and on the success path the
  call is made as \<open>retrieveVMs\<close> returns. On the failure of \<open>Retrieve\<close> the source
  calls \<open>os.Exit(1)\<close>, and Go runs no deferred call then: in the scenario where
  \<open>Retrieve\<close> fails the view is created and never destroyed, while in the scenario
  where it succeeds \<open>Destroy\<close> follows \<open>Retrieve\<close>.
\<close>

theorem retrieveVMs_exit_skips_Destroy:
  "retrieveVMs scenario_retrieve_fails \<lparr>RootFolder = rootFolder\<rparr> =
     ([Call_CreateContainerView rootFolder [''VirtualMachine''] True,
       Call_Retrieve view1 [''VirtualMachine''] [''name''],
       Printf ''Error retrieving virtual machines: %v\<newline>'' [AErr (Error ''connection reset'')]],
      Exit 1) \<and>
   list_ex is_Call_CreateContainerView (fst (main scenario_retrieve_fails)) \<and>
   list_ex is_Call_Destroy (fst (main scenario_retrieve_fails)) = False \<and>
   retrieveVMs scenario \<lparr>RootFolder = rootFolder\<rparr> =
     ([Call_CreateContainerView rootFolder [''VirtualMachine''] True,
       Call_Retrieve view1 [''VirtualMachine''] [''name''],
       Call_Destroy view1],
      Return [web01, db01])"
  by (simp add: main_scenario_retrieve_fails)
     (simp add: retrieveVMs_def scenario_retrieve_fails_def scenario_def)

text \<open>
  Claim C8. When the inventory listing fails (the view cannot be created, or
  \<open>Retrieve\<close> on it fails), the run ends with status 1, its last effect is the
  diagnostic that carries the error, and neither the catalog nor the query engine is
  called anywhere in the run.
\<close>

theorem inventory_failure_short_circuits:
  assumes env: "snd (readEnvVars w) = Return (vc, user, pass)"
    and conn: "createVSphereClient w (formatVCURL vc) user pass = (es, Return client)"
    and fail: "CreateContainerView w (RootFolder client) [''VirtualMachine''] True = Inl err \<or>
               (CreateContainerView w (RootFolder client) [''VirtualMachine''] True = Inr v \<and>
                Retrieve w v [''VirtualMachine''] [''name''] = Inl err)"
  shows "snd (main w) = 1 \<and>
         list_ex is_Call_CounterInfoByName (fst (main w)) = False \<and>
         list_ex is_Call_Query (fst (main w)) = False \<and>
         last (fst (main w)) \<in>
           {Printf ''Error creating container view: %v\<newline>'' [AErr err],
            Printf ''Error retrieving virtual machines: %v\<newline>'' [AErr err]}"
proof -
  have r1: "readEnvVars w = ([], Return (vc, user, pass))"
    using env readEnvVars_Return [of w "fst (readEnvVars w)" "(vc, user, pass)"]
    by (cases "readEnvVars w") simp
  have es: "list_all (\<lambda>e. \<not> is_Call_CounterInfoByName e \<and> \<not> is_Call_Query e) es"
    using createVSphereClient_no_engine [of w "formatVCURL vc" user pass] conn
    by (simp add: list_all_iff)
  from fail obtain e3 where r3: "retrieveVMs w client = (e3, Exit 1)"
    and e3: "list_all (\<lambda>e. \<not> is_Call_CounterInfoByName e \<and> \<not> is_Call_Query e) e3"
    and l3: "e3 \<noteq> []"
      "last e3 \<in> {Printf ''Error creating container view: %v\<newline>'' [AErr err],
                  Printf ''Error retrieving virtual machines: %v\<newline>'' [AErr err]}"
    by (auto simp: retrieveVMs_def)
  have m: "main w = (es @ e3, 1)"
    using r1 conn r3 by (simp add: main_unfold)
  show ?thesis
    using es e3 l3 by (simp add: m list_ex_iff list_all_iff) blast
qed

theorem inventory_failure_short_circuits_witness:
  "snd (main scenario_retrieve_fails) = 1 \<and>
   list_ex is_Call_CounterInfoByName (fst (main scenario_retrieve_fails)) = False \<and>
   list_ex is_Call_Query (fst (main scenario_retrieve_fails)) = False \<and>
   last (fst (main scenario_retrieve_fails)) \<in>
     {Printf ''Error creating container view: %v\<newline>'' [AErr (Error ''connection reset'')],
      Printf ''Error retrieving virtual machines: %v\<newline>'' [AErr (Error ''connection reset'')]}"
proof -
  have env: "snd (readEnvVars scenario_retrieve_fails) = Return (''vc.example.org'', ''admin'', ''secret'')"
    by (simp add: readEnvVars_def scenario_retrieve_fails_def scenario_def Let_def)
  have conn: "createVSphereClient scenario_retrieve_fails (formatVCURL ''vc.example.org'') ''admin'' ''secret'' =
      ([Call_NewClient \<lparr>Raw = ''https://vc.example.org/sdk'', User = Some (''admin'', ''secret'')\<rparr> True],
       Return \<lparr>RootFolder = rootFolder\<rparr>)"
    by (simp add: createVSphereClient_def formatVCURL_def scenario_retrieve_fails_def scenario_def Let_def)
  have fail: "CreateContainerView scenario_retrieve_fails (RootFolder \<lparr>RootFolder = rootFolder\<rparr>)
        [''VirtualMachine''] True = Inl (Error ''connection reset'') \<or>
      (CreateContainerView scenario_retrieve_fails (RootFolder \<lparr>RootFolder = rootFolder\<rparr>)
        [''VirtualMachine''] True = Inr view1 \<and>
       Retrieve scenario_retrieve_fails view1 [''VirtualMachine''] [''name''] = Inl (Error ''connection reset''))"
    by (simp add: scenario_retrieve_fails_def scenario_def)
  show ?thesis
    by (rule inventory_failure_short_circuits [OF env conn fail])
qed

subsection \<open>The counter catalog\<close>

text \<open>
  Claim C4. When the catalog has no entry for the metric name, the metrics step
  prints the diagnostic that names the metric and exits with status 1; no counter
  descriptor is obtained, so the loop is not entered. A run in such a world ends with
  status 1 and issues no query at all.
\<close>

theorem unknown_metric_is_fatal:
  assumes fetch: "CounterInfoByName w = Inr counterInfo"
    and absent: "counterInfo metricName = None"
  shows "retrieveAndDisplayMetrics w client vms =
           ([Call_CounterInfoByName,
             Printf ''Metric %s not found\<newline>'' [AStr ''cpu.usagemhz.average'']], Exit 1) \<and>
         snd (main w) = 1 \<and>
         list_ex is_Call_Query (fst (main w)) = False"
proof -
  have met: "retrieveAndDisplayMetrics w c xs =
      ([Call_CounterInfoByName,
        Printf ''Metric %s not found\<newline>'' [AStr ''cpu.usagemhz.average'']], Exit 1)" for c xs
    using fetch absent by (simp add: retrieveAndDisplayMetrics_def metricName_def)
  have "snd (main w) = 1 \<and> list_ex is_Call_Query (fst (main w)) = False"
  proof (cases w rule: main_cases)
    case (env e1)
    then show ?thesis
      using readEnvVars_no_engine [of w] by (auto simp: list_ex_iff list_all_iff)
  next
    case (conn vc user pass e2)
    then show ?thesis
      using createVSphereClient_no_engine [of w "formatVCURL vc" user pass]
      by (auto simp: list_ex_iff list_all_iff)
  next
    case (inv vc user pass e2 client e3)
    then show ?thesis
      using createVSphereClient_no_engine [of w "formatVCURL vc" user pass]
        retrieveVMs_no_engine [of w client]
      by (auto simp: list_ex_iff list_all_iff)
  next
    case (met vc user pass e2 client e3 vms e4)
    then show ?thesis
      using createVSphereClient_no_engine [of w "formatVCURL vc" user pass]
        retrieveVMs_no_engine [of w client] \<open>\<And>c xs. retrieveAndDisplayMetrics w c xs = _\<close> [of client vms]
      by (auto simp: list_ex_iff list_all_iff)
  next
    case (ok vc user pass e2 client e3 vms e4)
    then show ?thesis
      using \<open>\<And>c xs. retrieveAndDisplayMetrics w c xs = _\<close> [of client vms] by simp
  qed
  with met [of client vms] show ?thesis by simp
qed

theorem unknown_metric_is_fatal_witness:
  "retrieveAndDisplayMetrics scenario_unknown_metric \<lparr>RootFolder = rootFolder\<rparr> [web01, db01] =
     ([Call_CounterInfoByName,
       Printf ''Metric %s not found\<newline>'' [AStr ''cpu.usagemhz.average'']], Exit 1) \<and>
   snd (main scenario_unknown_metric) = 1 \<and>
   list_ex is_Call_Query (fst (main scenario_unknown_metric)) = False"
proof -
  have fetch: "CounterInfoByName scenario_unknown_metric = Inr [''mem.usage.average'' \<mapsto> counter6]"
    by (simp add: scenario_unknown_metric_def scenario_def)
  have absent: "[''mem.usage.average'' \<mapsto> counter6] metricName = None"
    by (simp add: metricName_def)
  show ?thesis
    by (rule unknown_metric_is_fatal [OF fetch absent])
qed

subsection \<open>Calls of the catalog and of the query engine\<close>

lemma line_not_call:
  "is_line e \<Longrightarrow> \<not> is_Call_Query e \<and> \<not> is_Call_CounterInfoByName e \<and> \<not> is_Call_Destroy e"
  by (cases e) simp_all

lemma vmLoop_queries:
  "filter is_Call_Query (vmLoop w counter i vms) = map (\<lambda>vm. Call_Query [querySpec vm counter]) vms"
proof (induction vms arbitrary: i)
  case Nil
  show ?case by simp
next
  case (Cons vm vms)
  have "filter is_Call_Query (metricLoop vm counter ms) = []" for ms
    using metricLoop_lines [of vm counter ms]
    by (auto simp: filter_empty_conv list_all_iff dest: line_not_call)
  then have "filter is_Call_Query (vmStep w counter i vm) = [Call_Query [querySpec vm counter]]"
    by (simp add: vmStep_def split: sum.splits)
  with Cons.IH show ?case by simp
qed









subsection \<open>The per-entity loop\<close>

lemma retrieveAndDisplayMetrics_found:
  assumes "CounterInfoByName w = Inr counterInfo" and "counterInfo metricName = Some counter"
  shows "retrieveAndDisplayMetrics w client vms =
           (Call_CounterInfoByName # vmLoop w counter 0 vms, Return ())"
  using assms by (simp add: retrieveAndDisplayMetrics_def)

lemma scenario_catalog:
  "CounterInfoByName scenario = Inr [metricName \<mapsto> counter6]"
  "[metricName \<mapsto> counter6] metricName = Some counter6"
  by (simp_all add: scenario_def)

lemma seriesStep_names: "list_all (names_vm (Name vm)) (seriesStep vm counter s)"
  by (cases s) simp_all

lemma seriesLoop_names: "list_all (names_vm (Name vm)) (seriesLoop vm counter ss)"
  by (induction ss) (simp_all add: seriesStep_names)

lemma metricStep_names: "list_all (names_vm (Name vm)) (metricStep vm counter m)"
  by (cases m) (simp_all add: seriesLoop_names)

lemma metricLoop_names: "list_all (names_vm (Name vm)) (metricLoop vm counter ms)"
  by (induction ms) (simp_all add: metricStep_names)

lemma vmStep_names: "list_all (names_vm (Name vm)) (vmStep w counter i vm)"
  by (simp add: vmStep_def metricLoop_names split: sum.splits)

lemma zip_upt2: "zip [0 ..< 2] [a, b] = [(0, a), (Suc 0, b)]"
  by (simp add: upt_rec)

text \<open>
  Claim C7. Once the counter is resolved, the queries of the metrics step are, in
  inventory order, one per machine: each call submits a single specification whose
  entity is that machine's reference, whose metric ids are the one resolved counter
  id, whose interval is 20 and whose sample bound is 1.
\<close>

theorem query_scoped_to_entity_and_counter:
  assumes fetch: "CounterInfoByName w = Inr counterInfo"
    and found: "counterInfo metricName = Some counter"
  shows "filter is_Call_Query (fst (retrieveAndDisplayMetrics w client vms)) =
           map (\<lambda>vm. Call_Query
                  [\<lparr>Entity = Reference vm, StartTime = None, EndTime = None, MaxSample = 1,
                    MetricId = [\<lparr>CounterId = Key counter, Instance = ''''\<rparr>],
                    IntervalId = 20, Format = ''''\<rparr>]) vms"
  using retrieveAndDisplayMetrics_found [OF fetch found, of client vms]
    vmLoop_queries [of w counter 0 vms]
  by (simp add: querySpec_def)

theorem query_scoped_to_entity_and_counter_witness:
  "filter is_Call_Query (fst (retrieveAndDisplayMetrics scenario \<lparr>RootFolder = rootFolder\<rparr> [web01, db01])) =
     [Call_Query
        [\<lparr>Entity = \<lparr>Type = ''VirtualMachine'', Value = ''vm-1''\<rparr>, StartTime = None, EndTime = None,
          MaxSample = 1, MetricId = [\<lparr>CounterId = 6, Instance = ''''\<rparr>],
          IntervalId = 20, Format = ''''\<rparr>],
      Call_Query
        [\<lparr>Entity = \<lparr>Type = ''VirtualMachine'', Value = ''vm-2''\<rparr>, StartTime = None, EndTime = None,
          MaxSample = 1, MetricId = [\<lparr>CounterId = 6, Instance = ''''\<rparr>],
          IntervalId = 20, Format = ''''\<rparr>]]"
  using query_scoped_to_entity_and_counter [OF scenario_catalog, of "\<lparr>RootFolder = rootFolder\<rparr>" "[web01, db01]"]
  by (simp add: Reference_def web01_def db01_def counter6_def)

text \<open>
  Claim C10. The effects of the metrics step are the catalog fetch followed by the
  effects of the loop body for the first machine, then those for the second, and so
  on in inventory order; and every line the body prints for a machine names that
  machine. So all lines of a machine precede every line of a later one.
\<close>

theorem output_in_inventory_order:
  assumes fetch: "CounterInfoByName w = Inr counterInfo"
    and found: "counterInfo metricName = Some counter"
  shows "fst (retrieveAndDisplayMetrics w client vms) =
           Call_CounterInfoByName #
           concat (map (\<lambda>(i, vm). vmStep w counter i vm) (zip [0 ..< length vms] vms)) \<and>
         list_all (\<lambda>(i, vm). list_all (names_vm (Name vm)) (vmStep w counter i vm))
           (zip [0 ..< length vms] vms)"
proof
  show "fst (retrieveAndDisplayMetrics w client vms) =
           Call_CounterInfoByName #
           concat (map (\<lambda>(i, vm). vmStep w counter i vm) (zip [0 ..< length vms] vms))"
    using retrieveAndDisplayMetrics_found [OF fetch found, of client vms]
      vmLoop_concat [of w counter 0 vms] by simp
  show "list_all (\<lambda>(i, vm). list_all (names_vm (Name vm)) (vmStep w counter i vm))
           (zip [0 ..< length vms] vms)"
    using vmStep_names [of _ w counter] by (auto simp: list_all_iff)
qed

theorem output_in_inventory_order_witness:
  "fst (retrieveAndDisplayMetrics scenario \<lparr>RootFolder = rootFolder\<rparr> [web01, db01]) =
     [Call_CounterInfoByName,
      Call_Query [querySpec web01 counter6],
      Printf ''VM: %s, CPU Usage (MHz): %v\<newline>'' [AStr ''web-01'', AInts [350]],
      Call_Query [querySpec db01 counter6],
      Printf ''Error querying performance metrics for VM %s: %v\<newline>''
        [AStr ''db-01'', AErr (Error ''transport error'')]] \<and>
   list_all (names_vm ''web-01'') (vmStep scenario counter6 0 web01) \<and>
   list_all (names_vm ''db-01'') (vmStep scenario counter6 1 db01)"
  using output_in_inventory_order [OF scenario_catalog, of "\<lparr>RootFolder = rootFolder\<rparr>" "[web01, db01]"]
  by (simp add: zip_upt2) (simp add: vmStep_def scenario_def web01_def db01_def counter6_def id6_def)

text \<open>
  Claim C2. When the query for the \<open>i\<close>-th machine fails, the body prints the
  diagnostic with that machine's name and the error and does nothing else for it; the
  loop goes on with the machines after it, and the metrics step returns. A run that
  reached the metrics step with the counter resolved ends with status 0, whatever
  the queries answer.
\<close>

theorem query_failure_is_skipped:
  assumes fetch: "CounterInfoByName w = Inr counterInfo"
    and found: "counterInfo metricName = Some counter"
    and i: "i < length vms"
    and fail: "Query w i [querySpec (vms ! i) counter] = Inl err"
  shows "retrieveAndDisplayMetrics w client vms =
           (Call_CounterInfoByName # vmLoop w counter 0 (take i vms) @
              [Call_Query [querySpec (vms ! i) counter],
               Printf ''Error querying performance metrics for VM %s: %v\<newline>''
                 [AStr (Name (vms ! i)), AErr err]] @
              vmLoop w counter (Suc i) (drop (Suc i) vms),
            Return ()) \<and>
         (\<forall>vc user pass e2 e3.
            snd (readEnvVars w) = Return (vc, user, pass) \<and>
            createVSphereClient w (formatVCURL vc) user pass = (e2, Return client) \<and>
            retrieveVMs w client = (e3, Return vms) \<longrightarrow>
            snd (main w) = 0)"
proof (intro conjI allI impI)
  have split: "vms = take i vms @ (vms ! i) # drop (Suc i) vms"
    using i by (simp add: id_take_nth_drop)
  have "vmLoop w counter 0 vms =
      vmLoop w counter 0 (take i vms) @ vmLoop w counter i ((vms ! i) # drop (Suc i) vms)"
    using vmLoop_append [of w counter 0 "take i vms" "(vms ! i) # drop (Suc i) vms"] split i
    by (simp add: min_def)
  also have "vmLoop w counter i ((vms ! i) # drop (Suc i) vms) =
      [Call_Query [querySpec (vms ! i) counter],
       Printf ''Error querying performance metrics for VM %s: %v\<newline>''
         [AStr (Name (vms ! i)), AErr err]] @
      vmLoop w counter (Suc i) (drop (Suc i) vms)"
    using fail by (simp add: vmStep_def)
  finally show "retrieveAndDisplayMetrics w client vms =
           (Call_CounterInfoByName # vmLoop w counter 0 (take i vms) @
              [Call_Query [querySpec (vms ! i) counter],
               Printf ''Error querying performance metrics for VM %s: %v\<newline>''
                 [AStr (Name (vms ! i)), AErr err]] @
              vmLoop w counter (Suc i) (drop (Suc i) vms),
            Return ())"
    using retrieveAndDisplayMetrics_found [OF fetch found, of client vms] by simp
next
  fix vc user pass e2 e3
  assume a: "snd (readEnvVars w) = Return (vc, user, pass) \<and>
            createVSphereClient w (formatVCURL vc) user pass = (e2, Return client) \<and>
            retrieveVMs w client = (e3, Return vms)"
  then obtain e1 where "readEnvVars w = (e1, Return (vc, user, pass))"
    by (cases "readEnvVars w") simp
  with a show "snd (main w) = 0"
    using retrieveAndDisplayMetrics_found [OF fetch found, of client vms]
    by (simp add: main_unfold)
qed

theorem query_failure_is_skipped_witness:
  "retrieveAndDisplayMetrics scenario \<lparr>RootFolder = rootFolder\<rparr> [web01, db01] =
     ([Call_CounterInfoByName,
       Call_Query [querySpec web01 counter6],
       Printf ''VM: %s, CPU Usage (MHz): %v\<newline>'' [AStr ''web-01'', AInts [350]],
       Call_Query [querySpec db01 counter6],
       Printf ''Error querying performance metrics for VM %s: %v\<newline>''
         [AStr ''db-01'', AErr (Error ''transport error'')]], Return ()) \<and>
   snd (main scenario) = 0"
proof -
  have i: "1 < length [web01, db01]" by simp
  have fail: "Query scenario 1 [querySpec ([web01, db01] ! 1) counter6] = Inl (Error ''transport error'')"
    by (simp add: scenario_def)
  have env: "snd (readEnvVars scenario) = Return (''vc.example.org'', ''admin'', ''secret'')"
    by (simp add: readEnvVars_def scenario_def Let_def)
  have conn: "createVSphereClient scenario (formatVCURL ''vc.example.org'') ''admin'' ''secret'' =
      ([Call_NewClient \<lparr>Raw = ''https://vc.example.org/sdk'', User = Some (''admin'', ''secret'')\<rparr> True],
       Return \<lparr>RootFolder = rootFolder\<rparr>)"
    by (simp add: createVSphereClient_def formatVCURL_def scenario_def Let_def)
  have inv: "retrieveVMs scenario \<lparr>RootFolder = rootFolder\<rparr> =
      ([Call_CreateContainerView rootFolder [''VirtualMachine''] True,
        Call_Retrieve view1 [''VirtualMachine''] [''name''],
        Call_Destroy view1], Return [web01, db01])"
    by (simp add: retrieveVMs_def scenario_def)
  have first: "vmLoop scenario counter6 0 [web01] =
      [Call_Query [querySpec web01 counter6],
       Printf ''VM: %s, CPU Usage (MHz): %v\<newline>'' [AStr ''web-01'', AInts [350]]]"
    by (simp add: vmStep_def scenario_def web01_def counter6_def id6_def)
  show ?thesis
    using query_failure_is_skipped [OF scenario_catalog i fail, of "\<lparr>RootFolder = rootFolder\<rparr>"]
      env conn inv first
    by (simp add: db01_def)
qed

subsection \<open>Extraction from a response\<close>

lemma valueLines_append: "valueLines (xs @ ys) = valueLines xs @ valueLines ys"
  by (simp add: valueLines_def)

lemma seriesStep_other:
  "\<not> isIntSeries s \<Longrightarrow>
   seriesStep vm counter s =
     [Printf ''Error asserting metric series type for VM %s\<newline>'' [AStr (Name vm)]]"
  by (cases s) simp_all

lemma metricStep_other:
  "\<not> isEntityMetric m \<Longrightarrow>
   metricStep vm counter m =
     [Printf ''Error asserting metric type for VM %s\<newline>'' [AStr (Name vm)]]"
  by (cases m) simp_all

lemma valueLines_seriesLoop:
  "valueLines (seriesLoop vm counter ss) =
     map (\<lambda>s. (Name vm, seriesValues s)) (filter (matches counter) (filter isIntSeries ss))"
proof (induction ss)
  case Nil
  show ?case by (simp add: valueLines_def)
next
  case (Cons s ss)
  then show ?case
    by (cases s) (simp_all add: valueLines_append matches_def, simp_all add: valueLines_def)
qed

lemma valueLines_metricLoop:
  "valueLines (metricLoop vm counter ms) =
     map (\<lambda>s. (Name vm, seriesValues s)) (filter (matches counter) (allIntSeries ms))"
proof (induction ms)
  case Nil
  show ?case by (simp add: valueLines_def allIntSeries_def)
next
  case (Cons m ms)
  have "valueLines (metricStep vm counter m) =
      map (\<lambda>s. (Name vm, seriesValues s)) (filter (matches counter) (intSeriesOf m))"
    by (cases m) (simp_all add: valueLines_seriesLoop, simp_all add: valueLines_def)
  with Cons show ?case
    by (simp add: valueLines_append allIntSeries_def)
qed

lemma seriesLoop_quiet:
  "list_all isIntSeries ss \<Longrightarrow> filter (matches counter) ss = [] \<Longrightarrow> seriesLoop vm counter ss = []"
proof (induction ss)
  case Nil
  show ?case by simp
next
  case (Cons s ss)
  then show ?case by (cases s) (simp_all add: matches_def split: if_splits)
qed

lemma metricLoop_quiet:
  "list_all isEntityMetric ms \<Longrightarrow> list_all isIntSeries (allSeries ms) \<Longrightarrow>
   filter (matches counter) (allSeries ms) = [] \<Longrightarrow> metricLoop vm counter ms = []"
proof (induction ms)
  case Nil
  show ?case by simp
next
  case (Cons m ms)
  then show ?case
    by (cases m) (simp_all add: allSeries_def seriesLoop_quiet)
qed

text \<open>
  Claim C6. A value series that is not of the integer kind is skipped: the loop
  prints the per-entity diagnostic for it and goes on with the next series, and the
  result values are the same as if the series were not in the response. The same
  holds for an envelope that is not of the entity-metric kind. Neither ends the run:
  once the counter is resolved, the metrics step returns whatever the responses hold.
\<close>

theorem non_integer_series_skipped:
  "(\<not> isIntSeries s \<longrightarrow>
      seriesLoop vm counter (before @ s # after) =
        seriesLoop vm counter before @
        [Printf ''Error asserting metric series type for VM %s\<newline>'' [AStr (Name vm)]] @
        seriesLoop vm counter after \<and>
      valueLines (seriesLoop vm counter (before @ s # after)) =
        valueLines (seriesLoop vm counter (before @ after))) \<and>
   (\<not> isEntityMetric m \<longrightarrow>
      metricLoop vm counter (pre @ m # post) =
        metricLoop vm counter pre @
        [Printf ''Error asserting metric type for VM %s\<newline>'' [AStr (Name vm)]] @
        metricLoop vm counter post \<and>
      valueLines (metricLoop vm counter (pre @ m # post)) =
        valueLines (metricLoop vm counter (pre @ post))) \<and>
   (CounterInfoByName w = Inr counterInfo \<and> counterInfo metricName = Some counter \<longrightarrow>
      snd (retrieveAndDisplayMetrics w client vms) = Return ())"
proof (intro conjI impI)
  assume s: "\<not> isIntSeries s"
  show "seriesLoop vm counter (before @ s # after) =
        seriesLoop vm counter before @
        [Printf ''Error asserting metric series type for VM %s\<newline>'' [AStr (Name vm)]] @
        seriesLoop vm counter after"
    using seriesStep_other [OF s, of vm counter] by (simp add: seriesLoop_append)
  then show "valueLines (seriesLoop vm counter (before @ s # after)) =
        valueLines (seriesLoop vm counter (before @ after))"
    by (simp add: seriesLoop_append valueLines_append) (simp add: valueLines_def)
next
  assume m: "\<not> isEntityMetric m"
  show "metricLoop vm counter (pre @ m # post) =
        metricLoop vm counter pre @
        [Printf ''Error asserting metric type for VM %s\<newline>'' [AStr (Name vm)]] @
        metricLoop vm counter post"
    using metricStep_other [OF m, of vm counter] by (simp add: metricLoop_append)
  then show "valueLines (metricLoop vm counter (pre @ m # post)) =
        valueLines (metricLoop vm counter (pre @ post))"
    by (simp add: metricLoop_append valueLines_append) (simp add: valueLines_def)
next
  assume "CounterInfoByName w = Inr counterInfo \<and> counterInfo metricName = Some counter"
  then show "snd (retrieveAndDisplayMetrics w client vms) = Return ()"
    by (simp add: retrieveAndDisplayMetrics_def)
qed

theorem non_integer_series_skipped_witness:
  "seriesLoop web01 counter6
     ([PerfMetricIntSeries id6 [350], PerfMetricIntSeries id7 [12]] @
      PerfMetricSeriesCSV id6 ''350'' # [PerfMetricIntSeries id6 [351]]) =
     [Printf ''VM: %s, CPU Usage (MHz): %v\<newline>'' [AStr ''web-01'', AInts [350]],
      Printf ''Error asserting metric series type for VM %s\<newline>'' [AStr ''web-01''],
      Printf ''VM: %s, CPU Usage (MHz): %v\<newline>'' [AStr ''web-01'', AInts [351]]] \<and>
   metricLoop web01 counter6
     ([] @ PerfEntityMetricCSV (Self web01) [(id6, ''350'')] #
      [PerfEntityMetric (Self web01) [PerfMetricIntSeries id6 [350]]]) =
     [Printf ''Error asserting metric type for VM %s\<newline>'' [AStr ''web-01''],
      Printf ''VM: %s, CPU Usage (MHz): %v\<newline>'' [AStr ''web-01'', AInts [350]]] \<and>
   snd (retrieveAndDisplayMetrics scenario_mixed \<lparr>RootFolder = rootFolder\<rparr> [web01, db01]) = Return ()"
proof -
  have s: "\<not> isIntSeries (PerfMetricSeriesCSV id6 ''350'')" by simp
  have m: "\<not> isEntityMetric (PerfEntityMetricCSV (Self web01) [(id6, ''350'')])" by simp
  have cat: "CounterInfoByName scenario_mixed = Inr [metricName \<mapsto> counter6] \<and>
      [metricName \<mapsto> counter6] metricName = Some counter6"
    by (simp add: scenario_mixed_def scenario_def)
  show ?thesis
    using non_integer_series_skipped
      [of "PerfMetricSeriesCSV id6 ''350''" web01 counter6
          "[PerfMetricIntSeries id6 [350], PerfMetricIntSeries id7 [12]]"
          "[PerfMetricIntSeries id6 [351]]"
          "PerfEntityMetricCSV (Self web01) [(id6, ''350'')]"
          "[]" "[PerfEntityMetric (Self web01) [PerfMetricIntSeries id6 [350]]]"
          scenario_mixed "[metricName \<mapsto> counter6]"
          "\<lparr>RootFolder = rootFolder\<rparr>" "[web01, db01]"]
      s m cat
    by (simp add: web01_def counter6_def id6_def id7_def)
qed

text \<open>
  Claim C1, as stated, counts the series whose counter id is the requested one,
  whatever their kind. It fails on a response whose only series is a CSV series of
  the requested counter: one series matches, and no value sequence is surfaced. And
  a response whose only series is a CSV series of another counter has no matching
  series, yet the entity contributes a diagnostic line.
\<close>

theorem extraction_counts_every_kind_counterexample:
  "length (allSeries csvResponse) = 1 \<and>
   length (filter (matches counter6) (allSeries csvResponse)) = 1 \<and>
   valueLines (metricLoop web01 counter6 csvResponse) = [] \<and>
   length (filter (matches counter6) (allSeries csvOtherResponse)) = 0 \<and>
   metricLoop web01 counter6 csvOtherResponse =
     [Printf ''Error asserting metric series type for VM %s\<newline>'' [AStr ''web-01'']]"
  by (simp add: csvResponse_def csvOtherResponse_def allSeries_def matches_def counter6_def
      id6_def id7_def valueLines_def web01_def)

text \<open>
  Claim C1, amended. The value sequences surfaced for a response are exactly those
  of its integer series, inside envelopes of the entity-metric kind, whose counter id
  is the requested one: one output per such series, in response order, each with
  the machine's name, and nothing for any other series. With \<open>K\<close> the number of
  these series, exactly \<open>K\<close> sequences are surfaced; this is what a successful query
  contributes. When all envelopes are entity metrics, all series are integer series
  and none matches, the entity contributes nothing at all.
\<close>

theorem extraction_surfaces_matching_integer_series:
  "valueLines (metricLoop vm counter metrics) =
     map (\<lambda>s. (Name vm, seriesValues s)) (filter (matches counter) (allIntSeries metrics)) \<and>
   length (valueLines (metricLoop vm counter metrics)) =
     length (filter (matches counter) (allIntSeries metrics)) \<and>
   (Query w i [querySpec vm counter] = Inr metrics \<longrightarrow>
      valueLines (vmStep w counter i vm) =
        map (\<lambda>s. (Name vm, seriesValues s)) (filter (matches counter) (allIntSeries metrics))) \<and>
   (list_all isEntityMetric metrics \<and> list_all isIntSeries (allSeries metrics) \<and>
    filter (matches counter) (allSeries metrics) = [] \<longrightarrow>
      metricLoop vm counter metrics = [])"
proof (intro conjI impI)
  show v: "valueLines (metricLoop vm counter metrics) =
     map (\<lambda>s. (Name vm, seriesValues s)) (filter (matches counter) (allIntSeries metrics))"
    by (rule valueLines_metricLoop)
  then show "length (valueLines (metricLoop vm counter metrics)) =
     length (filter (matches counter) (allIntSeries metrics))"
    by simp
  show "valueLines (vmStep w counter i vm) =
        map (\<lambda>s. (Name vm, seriesValues s)) (filter (matches counter) (allIntSeries metrics))"
    if "Query w i [querySpec vm counter] = Inr metrics"
    using that v by (simp add: vmStep_def valueLines_def)
  show "metricLoop vm counter metrics = []"
    if "list_all isEntityMetric metrics \<and> list_all isIntSeries (allSeries metrics) \<and>
        filter (matches counter) (allSeries metrics) = []"
    using that metricLoop_quiet by blast
qed

theorem extraction_surfaces_matching_integer_series_witness:
  "valueLines (metricLoop web01 counter6 mixedResponse) = [(''web-01'', [350]), (''web-01'', [351])] \<and>
   length (allSeries mixedResponse) = 5 \<and>
   length (filter (matches counter6) (allIntSeries mixedResponse)) = 2 \<and>
   valueLines (vmStep scenario_mixed counter6 0 web01) = [(''web-01'', [350]), (''web-01'', [351])] \<and>
   metricLoop web01 counter6 intOtherResponse = []"
proof -
  have q: "Query scenario_mixed 0 [querySpec web01 counter6] = Inr mixedResponse"
    by (simp add: scenario_mixed_def scenario_def)
  have quiet: "list_all isEntityMetric intOtherResponse \<and>
      list_all isIntSeries (allSeries intOtherResponse) \<and>
      filter (matches counter6) (allSeries intOtherResponse) = []"
    by (simp add: intOtherResponse_def allSeries_def matches_def counter6_def id7_def)
  have ints: "filter (matches counter6) (allIntSeries mixedResponse) =
      [PerfMetricIntSeries id6 [350], PerfMetricIntSeries id6 [351]]"
    by (simp add: mixedResponse_def allIntSeries_def matches_def counter6_def id6_def id7_def)
  have n: "length (allSeries mixedResponse) = 5"
    by (simp add: mixedResponse_def allSeries_def)
  show ?thesis
    using extraction_surfaces_matching_integer_series [of web01 counter6 mixedResponse scenario_mixed 0]
      extraction_surfaces_matching_integer_series [of web01 counter6 intOtherResponse scenario_mixed 0]
      q quiet ints n
    by (simp add: web01_def)
qed

end
